theory Spec2Isabelle
  imports Main "HOL-Library.AList"
begin

section \<open>Python values used by the GUI\<close>

text \<open>
  Python strings are modelled as \<^typ>\<open>string\<close>; every literal of the source that the model
  needs is ASCII. The two status-indicator texts of the source carry an emoji and are
  modelled by a two-valued datatype below.
\<close>

definition newline :: char where
  "newline = CHR 0x0A"

text \<open>
  \<^verbatim>\<open>str.isspace\<close> on one character, for the code points below 256:
  TAB, LF, VT, FF, CR, the four separators FS..US, SPACE, NEL and NBSP.
\<close>

definition isspace :: "char \<Rightarrow> bool" where
  "isspace c = ((of_char c :: nat) \<in> {9, 10, 11, 12, 13, 28, 29, 30, 31, 32, 133, 160})"

text \<open>\<^verbatim>\<open>str.strip()\<close>: leading and trailing whitespace removed.\<close>

definition strip :: "string \<Rightarrow> string" where
  "strip s = rev (dropWhile isspace (rev (dropWhile isspace s)))"

text \<open>\<^verbatim>\<open>sep.join(parts)\<close>.\<close>

fun join :: "string \<Rightarrow> string list \<Rightarrow> string" where
  "join sep [] = []"
| "join sep [p] = p"
| "join sep (p # q # ps) = p @ sep @ join sep (q # ps)"

definition digit_char :: "nat \<Rightarrow> char" where
  "digit_char d = char_of (48 + d)"

text \<open>Decimal rendering of a Python \<^verbatim>\<open>int\<close>, as \<^verbatim>\<open>f"{n}"\<close> gives it.\<close>

fun nat_digits :: "nat \<Rightarrow> string" where
  "nat_digits n =
     (if n < 10 then [digit_char n] else nat_digits (n div 10) @ [digit_char (n mod 10)])"

declare nat_digits.simps [simp del]

definition str_int :: "int \<Rightarrow> string" where
  "str_int i = (if i < 0 then CHR ''-'' # nat_digits (nat (- i)) else nat_digits (nat i))"

text \<open>
  A Python \<^verbatim>\<open>dict\<close> with string keys is an association list in insertion order;
  \<^const>\<open>AList.update\<close> is \<^verbatim>\<open>d[k] = v\<close> (an existing key keeps its place, a new key
  goes to the end) and \<open>py_in\<close> is \<^verbatim>\<open>k in d\<close>.
\<close>

type_synonym 'v dict = "(string \<times> 'v) list"

definition py_in :: "string \<Rightarrow> 'v dict \<Rightarrow> bool" where
  "py_in k d = (k \<in> set (map fst d))"

text \<open>
  What \<^verbatim>\<open>json.load\<close> can return. A number with a fraction or an exponent is kept as
  its literal; no operation modelled here looks inside the loaded document.
\<close>

datatype json =
    JNull
  | JBool bool
  | JInt int
  | JFloat string
  | JStr string
  | JArr "json list"
  | JObj "(string \<times> json) list"

text \<open>
  An exception object: the name of its class and what \<^verbatim>\<open>str(e)\<close> returns.
\<close>

datatype exn = Exn (exn_class: string) (exn_str: string)

text \<open>
  The built-in classes that derive from \<^verbatim>\<open>BaseException\<close> and not from
  \<^verbatim>\<open>Exception\<close>. An \<^verbatim>\<open>except Exception\<close> clause lets an exception of one of these
  classes pass; a bare \<^verbatim>\<open>except\<close> clause catches every exception. Every other class the
  program can meet (\<^verbatim>\<open>OSError\<close>, \<^verbatim>\<open>ValueError\<close>, \<^verbatim>\<open>json.JSONDecodeError\<close>,
  \<^verbatim>\<open>subprocess.TimeoutExpired\<close>, \<^verbatim>\<open>AttributeError\<close>, ...) derives from
  \<^verbatim>\<open>Exception\<close>.
\<close>

definition base_only_classes :: "string list" where
  "base_only_classes =
     [''BaseException'', ''KeyboardInterrupt'', ''SystemExit'', ''GeneratorExit'',
      ''BaseExceptionGroup'']"

definition derives_from_Exception :: "exn \<Rightarrow> bool" where
  "derives_from_Exception e = (exn_class e \<notin> set base_only_classes)"

text \<open>Reading an attribute of the \<^verbatim>\<open>DevSetupGUI\<close> object that was never assigned.\<close>

definition no_attribute :: "string \<Rightarrow> exn" where
  "no_attribute name =
     Exn ''AttributeError''
       ([CHR 0x27] @ ''DevSetupGUI'' @ [CHR 0x27] @ '' object has no attribute '' @
        [CHR 0x27] @ name @ [CHR 0x27])"

section \<open>The clock\<close>

text \<open>
  \<^verbatim>\<open>datetime.now()\<close> is an input of the program. A reading is a number of seconds (since
  some local midnight); a clock gives the reading of the \<open>k\<close>-th call, and the state counts
  the calls made so far.
\<close>

type_synonym clock = "nat \<Rightarrow> nat"

definition two_digits :: "nat \<Rightarrow> string" where
  "two_digits n = [digit_char (n div 10), digit_char (n mod 10)]"

text \<open>\<^verbatim>\<open>strftime("%H:%M:%S")\<close>.\<close>

definition strftime_HMS :: "nat \<Rightarrow> string" where
  "strftime_HMS t =
     two_digits (t div 3600 mod 24) @ '':'' @ two_digits (t div 60 mod 60) @ '':'' @
     two_digits (t mod 60)"

section \<open>The state of \<^verbatim>\<open>DevSetupGUI\<close>\<close>

datatype button_state = Normal | Disabled

text \<open>The text of the status indicator: "Ready" or "Working", each behind its emoji.\<close>

datatype indicator = Ready | Working

text \<open>
  The attributes that \<^verbatim>\<open>create_widgets\<close> assigns, each with the part of the widget's
  state the modelled methods read or write. \<^verbatim>\<open>create_widgets\<close> assigns them all and
  calls none of the methods modelled here on the way, so for these methods the widgets
  exist together or not at all. \<open>log_text\<close> is the content of the text widget before the
  newline that Tk keeps at its end.
\<close>

record widgets =
  pm_var :: string
  debug_var :: bool
  logging_var :: bool
  install_btn :: button_state
  progress_packed :: bool
  progress_running :: bool
  status_label :: indicator
  status_text :: string
  pm_status :: string
  stack_listbox :: "string list"
  stack_details :: string
  log_text :: string

text \<open>
  The attributes assigned at the top of \<^verbatim>\<open>__init__\<close>, the widgets (\<open>None\<close> until
  \<^verbatim>\<open>create_widgets\<close> has run: reading one of them raises \<^verbatim>\<open>AttributeError\<close>), the
  number of clock readings taken and the number of worker threads started.
\<close>

record gui =
  is_installing :: bool
  installation_log :: "string list"
  config :: json
  package_managers :: "string dict"
  available_stacks :: json
  widgets :: "widgets option"
  ticks :: nat
  workers :: nat

text \<open>
  A method returns the state it leaves behind and the exception it raised, if any: Python
  keeps every mutation made before a \<^verbatim>\<open>raise\<close>.
\<close>

type_synonym outcome = "exn option \<times> gui"

definition and_then :: "outcome \<Rightarrow> (gui \<Rightarrow> outcome) \<Rightarrow> outcome" where
  "and_then r f = (case r of (None, s) \<Rightarrow> f s | (Some e, s) \<Rightarrow> (Some e, s))"

definition initial_state :: gui where
  "initial_state =
     \<lparr>is_installing = False, installation_log = [], config = JObj [], package_managers = [],
      available_stacks = JObj [], widgets = None, ticks = 0, workers = 0\<rparr>"

text \<open>The widgets as \<^verbatim>\<open>create_widgets\<close> leaves them.\<close>

definition new_widgets :: widgets where
  "new_widgets =
     \<lparr>pm_var = ''auto'', debug_var = False, logging_var = True, install_btn = Normal,
      progress_packed = False, progress_running = False, status_label = Ready,
      status_text = ''Ready to setup your development environment'', pm_status = [],
      stack_listbox = [], stack_details = [], log_text = []\<rparr>"

definition create_widgets :: "gui \<Rightarrow> gui" where
  "create_widgets s = s\<lparr>widgets := Some new_widgets\<rparr>"

section \<open>Log management\<close>

definition log_entry :: "nat \<Rightarrow> string \<Rightarrow> string" where
  "log_entry t message = ''['' @ strftime_HMS t @ ''] '' @ message @ [newline]"

definition log_message :: "clock \<Rightarrow> string \<Rightarrow> gui \<Rightarrow> outcome" where
  "log_message clk message s =
     (let entry = log_entry (clk (ticks s)) message;
          s1 = s\<lparr>ticks := Suc (ticks s), installation_log := installation_log s @ [entry]\<rparr>
      in case widgets s1 of
           None \<Rightarrow> (Some (no_attribute ''log_text''), s1)
         | Some w \<Rightarrow> (None, s1\<lparr>widgets := Some (w\<lparr>log_text := log_text w @ entry\<rparr>)\<rparr>))"

definition update_status :: "string \<Rightarrow> gui \<Rightarrow> outcome" where
  "update_status status s =
     (case widgets s of
        None \<Rightarrow> (Some (no_attribute ''status_text''), s)
      | Some w \<Rightarrow>
          (None, s\<lparr>widgets := Some (w\<lparr>status_text := status,
             status_label := (if is_installing s then Working else Ready)\<rparr>)\<rparr>))"

text \<open>The display is emptied, then every entry is inserted at its end, in order.\<close>

definition refresh_log :: "gui \<Rightarrow> outcome" where
  "refresh_log s =
     (case widgets s of
        None \<Rightarrow> (Some (no_attribute ''log_text''), s)
      | Some w \<Rightarrow>
          (None, s\<lparr>widgets := Some (w\<lparr>log_text :=
             foldl (\<lambda>text entry. text @ entry) [] (installation_log s)\<rparr>)\<rparr>))"

text \<open>\<open>confirmed\<close> is the answer of the \<^verbatim>\<open>askyesno\<close> dialog.\<close>

definition clear_log :: "clock \<Rightarrow> bool \<Rightarrow> gui \<Rightarrow> outcome" where
  "clear_log clk confirmed s =
     (if confirmed then
        (let s1 = s\<lparr>installation_log := []\<rparr>
         in case widgets s1 of
              None \<Rightarrow> (Some (no_attribute ''log_text''), s1)
            | Some w \<Rightarrow> log_message clk ''Log cleared'' (s1\<lparr>widgets := Some (w\<lparr>log_text := []\<rparr>)\<rparr>))
      else (None, s))"

section \<open>Package managers\<close>

definition detect_best_package_manager :: "string dict \<Rightarrow> string" where
  "detect_best_package_manager pms =
     (if py_in ''choco'' pms then ''choco''
      else if py_in ''winget'' pms then ''winget''
      else if py_in ''scoop'' pms then ''scoop''
      else ''winget'')"

text \<open>
  The first lines of the \<^verbatim>\<open>try\<close> block of \<^verbatim>\<open>run_installation\<close>: the manager named on
  the command line, and the command line.
\<close>

definition selected_package_manager :: "string \<Rightarrow> string dict \<Rightarrow> string" where
  "selected_package_manager pm pms = (if pm = ''auto'' then detect_best_package_manager pms else pm)"

definition build_command :: "string \<Rightarrow> bool \<Rightarrow> bool \<Rightarrow> string list" where
  "build_command pm debug verbose =
     [''powershell'', ''-ExecutionPolicy'', ''Bypass'', ''-File'', ''setup.ps1'',
      ''-PackageManager'', pm]
     @ (if debug then [''-Debug''] else [])
     @ (if verbose then [''-Verbose''] else [])"

text \<open>
  The selection policy in the words of the specification: the first manager of a fixed
  priority list that is present, and a fixed default when none is.
\<close>

definition priority_order :: "string list" where
  "priority_order = [''choco'', ''winget'', ''scoop'']"

definition default_manager :: string where
  "default_manager = ''winget''"

definition first_present_or_default :: "string dict \<Rightarrow> string" where
  "first_present_or_default pms =
     (case find (\<lambda>m. py_in m pms) priority_order of
        Some m \<Rightarrow> m
      | None \<Rightarrow> default_manager)"

text \<open>
  What \<^verbatim>\<open>subprocess.run(..., timeout=5)\<close> does for a version probe: it raises (the
  executable is not found, the timeout expires, ...) or returns the exit code and the
  captured standard output. \<open>run\<close> below gives the outcome for a command line.
\<close>

datatype probe_result = Probe_raises exn | Completed int string

text \<open>
  One of the three \<^verbatim>\<open>try\<close> blocks of \<^verbatim>\<open>auto_detect_package_managers\<close>, which differ
  in the name of the manager only; the bare \<^verbatim>\<open>except: pass\<close> drops every exception.
\<close>

definition check_manager :: "(string list \<Rightarrow> probe_result) \<Rightarrow> string \<Rightarrow> string dict \<Rightarrow> string dict" where
  "check_manager run name pms =
     (case run [name, ''--version''] of
        Probe_raises e \<Rightarrow> pms
      | Completed returncode stdout \<Rightarrow>
          if returncode = 0 then AList.update name (strip stdout) pms else pms)"

definition auto_detect_package_managers :: "(string list \<Rightarrow> probe_result) \<Rightarrow> gui \<Rightarrow> outcome" where
  "auto_detect_package_managers run s =
     (let pms = check_manager run ''winget''
                  (check_manager run ''scoop'' (check_manager run ''choco'' []));
          s1 = s\<lparr>package_managers := pms\<rparr>;
          pm_text = join '' | '' (map (\<lambda>(pm, ver). pm @ '': '' @ ver) pms)
      in case widgets s1 of
           None \<Rightarrow> (Some (no_attribute ''pm_status''), s1)
         | Some w \<Rightarrow>
             (None, s1\<lparr>widgets := Some (w\<lparr>pm_status :=
                (if pm_text \<noteq> [] then pm_text else ''No package managers detected'')\<rparr>)\<rparr>))"

text \<open>The three managers the detector probes, and a failed probe, in the words of the
  specification: the invocation raised, or the exit code is not zero.\<close>

definition known_managers :: "string list" where
  "known_managers = [''choco'', ''scoop'', ''winget'']"

definition probe_failed :: "probe_result \<Rightarrow> bool" where
  "probe_failed p = (case p of Probe_raises e \<Rightarrow> True | Completed returncode stdout \<Rightarrow> returncode \<noteq> 0)"

section \<open>Configuration and start-up\<close>

text \<open>
  What \<^verbatim>\<open>load_config\<close> finds: no file, a file whose opening or parsing raises, or a
  parsed document. The handler is an \<^verbatim>\<open>except Exception\<close> clause.
\<close>

datatype config_file = Missing | Unreadable exn | Parsed json

definition load_config :: "clock \<Rightarrow> config_file \<Rightarrow> gui \<Rightarrow> outcome" where
  "load_config clk file s =
     (case file of
        Missing \<Rightarrow> (None, s\<lparr>config := JObj []\<rparr>)
      | Parsed document \<Rightarrow> (None, s\<lparr>config := document\<rparr>)
      | Unreadable e \<Rightarrow>
          if derives_from_Exception e then
            and_then (log_message clk (''Error loading config: '' @ exn_str e) s)
              (\<lambda>s1. (None, s1\<lparr>config := JObj []\<rparr>))
          else (Some e, s))"

text \<open>
  The body of \<^verbatim>\<open>__init__\<close> from the assignment of the state variables to the call of
  \<^verbatim>\<open>auto_detect_package_managers\<close>. \<^verbatim>\<open>configure_styles\<close> changes nothing modelled
  here; the call of \<^verbatim>\<open>load_available_stacks\<close> that ends \<^verbatim>\<open>__init__\<close> is not part
  of this model. Nothing in \<^verbatim>\<open>__init__\<close> catches an exception.
\<close>

definition init_steps :: "clock \<Rightarrow> config_file \<Rightarrow> (string list \<Rightarrow> probe_result) \<Rightarrow> outcome" where
  "init_steps clk file run =
     and_then (and_then (load_config clk file initial_state) (\<lambda>s. (None, create_widgets s)))
       (auto_detect_package_managers run)"

section \<open>Installation\<close>

text \<open>
  The worker thread is not run by the model: starting it is counted in \<open>workers\<close>.
  Child processes are spawned by \<^verbatim>\<open>run_installation\<close> only, which only a worker runs.
\<close>

definition start_installation :: "gui \<Rightarrow> outcome" where
  "start_installation s =
     (if is_installing s then (None, s)
      else
        (let s1 = s\<lparr>is_installing := True\<rparr>
         in case widgets s1 of
              None \<Rightarrow> (Some (no_attribute ''install_btn''), s1)
            | Some w \<Rightarrow>
                (None, s1\<lparr>widgets := Some (w\<lparr>install_btn := Disabled, progress_packed := True,
                                              progress_running := True\<rparr>),
                          workers := Suc (workers s1)\<rparr>)))"

text \<open>
  What the provisioning process does, as \<^verbatim>\<open>run_installation\<close> sees it:
  \<^verbatim>\<open>Popen\<close> raises, or the process starts and its output gives some lines; then reading
  raises or the stream closes; then \<^verbatim>\<open>wait\<close> raises or gives the exit code.
  \<open>popen\<close> below gives the behaviour for a command line.
\<close>

datatype wait_end = Wait_raises exn | Exit_code int

datatype read_end = Read_raises exn | Stream_closed wait_end

datatype child = Popen_raises exn | Spawned "string list" read_end

text \<open>The \<^verbatim>\<open>for line in process.stdout\<close> loop.\<close>

fun log_lines :: "clock \<Rightarrow> string list \<Rightarrow> gui \<Rightarrow> outcome" where
  "log_lines clk [] s = (None, s)"
| "log_lines clk (line # rest) s = and_then (log_message clk (strip line) s) (log_lines clk rest)"

text \<open>The \<^verbatim>\<open>try\<close> block of \<^verbatim>\<open>run_installation\<close>.\<close>

definition installation_body :: "clock \<Rightarrow> (string list \<Rightarrow> child) \<Rightarrow> gui \<Rightarrow> outcome" where
  "installation_body clk popen s =
     and_then (and_then (log_message clk ''Starting installation...'' s)
                        (update_status ''Installing packages...''))
       (\<lambda>s2. case widgets s2 of
           None \<Rightarrow> (Some (no_attribute ''pm_var''), s2)
         | Some w \<Rightarrow>
            (case popen (build_command (selected_package_manager (pm_var w) (package_managers s2))
                           (debug_var w) (logging_var w)) of
               Popen_raises e \<Rightarrow> (Some e, s2)
             | Spawned lines reading \<Rightarrow>
                 and_then (log_lines clk lines s2)
                   (\<lambda>s3. case reading of
                       Read_raises e \<Rightarrow> (Some e, s3)
                     | Stream_closed waiting \<Rightarrow>
                        (case waiting of
                           Wait_raises e \<Rightarrow> (Some e, s3)
                         | Exit_code returncode \<Rightarrow>
                            if returncode = 0 then
                              and_then (log_message clk ''Installation completed successfully!'' s3)
                                (update_status ''Installation completed'')
                            else
                              and_then (log_message clk
                                  (''Installation failed with code '' @ str_int returncode) s3)
                                (update_status ''Installation failed'')))))"

text \<open>
  \<^verbatim>\<open>try\<close> / \<^verbatim>\<open>except Exception\<close> / \<^verbatim>\<open>finally\<close>: the handler runs on an exception of
  the body that derives from \<^verbatim>\<open>Exception\<close>; the \<^verbatim>\<open>finally\<close> block runs in every
  case, and an exception that is still pending (one the handler did not catch, or one the
  handler raised) propagates after it unless the block itself raises.
\<close>

definition run_installation :: "clock \<Rightarrow> (string list \<Rightarrow> child) \<Rightarrow> gui \<Rightarrow> outcome" where
  "run_installation clk popen s =
     (let (pending, s2) =
            (case installation_body clk popen s of
               (None, s1) \<Rightarrow> (None, s1)
             | (Some e, s1) \<Rightarrow>
                 if derives_from_Exception e then
                   and_then (log_message clk (''Error during installation: '' @ exn_str e) s1)
                     (update_status ''Installation error'')
                 else (Some e, s1));
          s3 = s2\<lparr>is_installing := False\<rparr>
      in case widgets s3 of
           None \<Rightarrow> (Some (no_attribute ''install_btn''), s3)
         | Some w \<Rightarrow>
             (pending, s3\<lparr>widgets := Some (w\<lparr>install_btn := Normal, progress_running := False,
                                             progress_packed := False\<rparr>)\<rparr>))"

text \<open>The exception the provisioning process raises in the worker, if any, and the lines
  read before it.\<close>

fun raised_by :: "child \<Rightarrow> exn option" where
  "raised_by (Popen_raises e) = Some e"
| "raised_by (Spawned lines (Read_raises e)) = Some e"
| "raised_by (Spawned lines (Stream_closed (Wait_raises e))) = Some e"
| "raised_by (Spawned lines (Stream_closed (Exit_code returncode))) = None"

fun lines_read :: "child \<Rightarrow> string list" where
  "lines_read (Popen_raises e) = []"
| "lines_read (Spawned lines reading) = lines"

section \<open>Sequences of log calls\<close>

text \<open>Calling \<^verbatim>\<open>log_message\<close> on each message of a list, in order.\<close>

fun log_messages :: "clock \<Rightarrow> string list \<Rightarrow> gui \<Rightarrow> outcome" where
  "log_messages clk [] s = (None, s)"
| "log_messages clk (m # ms) s = and_then (log_message clk m s) (log_messages clk ms)"

text \<open>The entries that messages give when the clock has been read \<open>t\<close> times before.\<close>

definition entries :: "clock \<Rightarrow> nat \<Rightarrow> string list \<Rightarrow> string list" where
  "entries clk t msgs = map2 (\<lambda>k m. log_entry (clk k) m) [t..<t + length msgs] msgs"

text \<open>
  A line that starts with a time of day in brackets: \<^verbatim>\<open>[HH:MM:SS]\<close> with decimal
  digits, hours below 24, minutes and seconds below 60.
\<close>

definition is_digit :: "char \<Rightarrow> bool" where
  "is_digit c = (48 \<le> (of_char c :: nat) \<and> (of_char c :: nat) \<le> 57)"

definition two_digit_value :: "char \<Rightarrow> char \<Rightarrow> nat" where
  "two_digit_value a b = 10 * (of_char a - 48) + (of_char b - 48)"

fun timestamped :: "string \<Rightarrow> bool" where
  "timestamped (b # h1 # h2 # c1 # m1 # m2 # c2 # s1 # s2 # e # rest) =
     (b = CHR ''['' \<and> e = CHR '']'' \<and> c1 = CHR '':'' \<and> c2 = CHR '':''
      \<and> is_digit h1 \<and> is_digit h2 \<and> is_digit m1 \<and> is_digit m2 \<and> is_digit s1 \<and> is_digit s2
      \<and> two_digit_value h1 h2 < 24 \<and> two_digit_value m1 m2 < 60 \<and> two_digit_value s1 s2 < 60)"
| "timestamped _ = False"

text \<open>
  A provisioning process that starts, prints nothing, and whose \<^verbatim>\<open>wait\<close> is interrupted
  by \<^verbatim>\<open>KeyboardInterrupt\<close>, whatever the command line.
\<close>

definition interrupted_at_wait :: "string list \<Rightarrow> child" where
  "interrupted_at_wait cmd =
     Spawned [] (Stream_closed (Wait_raises (Exn ''KeyboardInterrupt'' [])))"

section \<open>Facts about the model\<close>

subsection \<open>Sequencing and single calls\<close>

lemma and_then_None: "and_then (None, s) f = f s"
  by (simp add: and_then_def)

lemma log_message_built:
  "widgets s = Some w \<Longrightarrow>
   log_message clk m s =
     (None, s\<lparr>ticks := Suc (ticks s),
              installation_log := installation_log s @ [log_entry (clk (ticks s)) m],
              widgets := Some (w\<lparr>log_text := log_text w @ log_entry (clk (ticks s)) m\<rparr>)\<rparr>)"
  by (simp add: log_message_def Let_def)

lemma log_message_ok:
  "widgets s \<noteq> None \<Longrightarrow>
   log_message clk m s =
     (None, s\<lparr>ticks := Suc (ticks s),
              installation_log := installation_log s @ [log_entry (clk (ticks s)) m],
              widgets := Some ((the (widgets s))\<lparr>log_text := log_text (the (widgets s)) @ log_entry (clk (ticks s)) m\<rparr>)\<rparr>)"
  by (auto simp: log_message_def Let_def)

lemma update_status_ok:
  "widgets s \<noteq> None \<Longrightarrow>
   update_status st s =
     (None, s\<lparr>widgets := Some ((the (widgets s))\<lparr>status_text := st,
             status_label := (if is_installing s then Working else Ready)\<rparr>)\<rparr>)"
  by (auto simp: update_status_def)

subsection \<open>Entries of a sequence of calls\<close>

lemma entries_Nil: "entries clk t [] = []"
  by (simp add: entries_def)

lemma entries_Cons: "entries clk t (m # ms) = log_entry (clk t) m # entries clk (Suc t) ms"
  by (simp add: entries_def upt_conv_Cons del: upt_Suc)

lemma entries_append:
  "entries clk t (xs @ ys) = entries clk t xs @ entries clk (t + length xs) ys"
  by (induction xs arbitrary: t) (simp_all add: entries_Nil entries_Cons)

lemma entries_nth:
  "i < length msgs \<Longrightarrow> entries clk t msgs ! i = log_entry (clk (t + i)) (msgs ! i)"
  by (simp add: entries_def)

lemma length_entries: "length (entries clk t msgs) = length msgs"
  by (simp add: entries_def)

lemma log_messages_built:
  "widgets s = Some w \<Longrightarrow>
   log_messages clk msgs s =
     (None, s\<lparr>ticks := ticks s + length msgs,
              installation_log := installation_log s @ entries clk (ticks s) msgs,
              widgets := Some (w\<lparr>log_text := log_text w @ concat (entries clk (ticks s) msgs)\<rparr>)\<rparr>)"
proof (induction msgs arbitrary: s w)
  case Nil
  then show ?case by (simp add: entries_Nil)
next
  case (Cons m ms)
  let ?s1 = "s\<lparr>ticks := Suc (ticks s),
              installation_log := installation_log s @ [log_entry (clk (ticks s)) m],
              widgets := Some (w\<lparr>log_text := log_text w @ log_entry (clk (ticks s)) m\<rparr>)\<rparr>"
  have step: "log_message clk m s = (None, ?s1)"
    using Cons.prems by (rule log_message_built)
  have "widgets ?s1 = Some (w\<lparr>log_text := log_text w @ log_entry (clk (ticks s)) m\<rparr>)"
    by simp
  from Cons.IH [OF this] show ?case
    by (simp add: step and_then_None entries_Cons)
qed

lemma log_messages_ok:
  "widgets s \<noteq> None \<Longrightarrow>
   log_messages clk msgs s =
     (None, s\<lparr>ticks := ticks s + length msgs,
              installation_log := installation_log s @ entries clk (ticks s) msgs,
              widgets := Some ((the (widgets s))\<lparr>log_text := log_text (the (widgets s)) @ concat (entries clk (ticks s) msgs)\<rparr>)\<rparr>)"
  using log_messages_built [of s "the (widgets s)" clk msgs] by auto

lemma log_lines_log_messages: "log_lines clk ls s = log_messages clk (map strip ls) s"
proof (induction ls arbitrary: s)
  case Nil
  show ?case by simp
next
  case (Cons l ls)
  show ?case
    by (cases "log_message clk (strip l) s") (simp add: and_then_def Cons.IH split: option.splits)
qed

lemma foldl_append_concat: "foldl (\<lambda>text entry. text @ entry) acc xs = acc @ concat xs"
  by (induction xs arbitrary: acc) simp_all

subsection \<open>The format of a time stamp\<close>

lemma of_char_digit_char: "d < 10 \<Longrightarrow> (of_char (digit_char d) :: nat) = 48 + d"
  by (simp add: digit_char_def)

lemma timestamped_two_digits:
  assumes "h < 24" and "m < 60" and "s < 60"
  shows "timestamped (''['' @ two_digits h @ '':'' @ two_digits m @ '':'' @ two_digits s @ '']'' @ rest)"
proof -
  have d: "h div 10 \<le> 9" "m div 10 \<le> 9" "s div 10 \<le> 9"
    using assms by simp_all
  have r: "h mod 10 \<le> 9" "m mod 10 \<le> 9" "s mod 10 \<le> 9"
    by arith+
  have v: "10 * (h div 10) + h mod 10 = h" "10 * (m div 10) + m mod 10 = m"
    "10 * (s div 10) + s mod 10 = s"
    by simp_all
  show ?thesis
    using assms d r
    by (simp add: two_digits_def is_digit_def two_digit_value_def of_char_digit_char v)
qed

lemma timestamped_log_entry: "timestamped (log_entry t m)"
  using timestamped_two_digits [of "t div 3600 mod 24" "t div 60 mod 60" "t mod 60" "CHR '' '' # m @ [newline]"]
  by (simp add: log_entry_def strftime_HMS_def)

lemma digit_char_values:
  "digit_char 0 = CHR ''0''" "digit_char (Suc 0) = CHR ''1''" "digit_char 2 = CHR ''2''"
  "digit_char 3 = CHR ''3''" "digit_char 4 = CHR ''4''" "digit_char 5 = CHR ''5''"
  "digit_char 6 = CHR ''6''" "digit_char 7 = CHR ''7''" "digit_char 8 = CHR ''8''"
  "digit_char 9 = CHR ''9''"
  by (simp_all add: digit_char_def char_of_def bit_iff_odd)

lemma strftime_HMS_examples:
  "strftime_HMS 0 = ''00:00:00''"
  "strftime_HMS 45296 = ''12:34:56''"
  "strftime_HMS 45297 = ''12:34:57''"
  by (simp_all add: strftime_HMS_def two_digits_def digit_char_values)

lemma strip_examples:
  "strip ''  Installing git... '' = ''Installing git...''"
  by (simp add: strip_def isspace_def)

lemma str_int_examples:
  "str_int 1 = ''1''"
  by (simp_all add: str_int_def nat_digits.simps digit_char_values)

subsection \<open>The registry after detection\<close>

lemma py_in_Nil: "py_in k [] = False"
  by (simp add: py_in_def)

lemma py_in_update: "py_in k (AList.update k' v d) = (k = k' \<or> py_in k d)"
  by (auto simp: py_in_def dom_update)

lemma py_in_check_manager:
  "py_in m (check_manager run name pms) =
     (py_in m pms \<or> (m = name \<and> \<not> probe_failed (run [name, ''--version''])))"
  by (auto simp: check_manager_def probe_failed_def py_in_update split: probe_result.splits)

lemma package_managers_auto_detect:
  "package_managers (snd (auto_detect_package_managers run s)) =
     check_manager run ''winget'' (check_manager run ''scoop'' (check_manager run ''choco'' []))"
  by (simp add: auto_detect_package_managers_def Let_def split: option.splits)

subsection \<open>The two ways out of the \<^verbatim>\<open>try\<close> block\<close>

lemma installation_body_raises:
  assumes "widgets s \<noteq> None"
    and "popen (build_command
           (selected_package_manager (pm_var (the (widgets s))) (package_managers s))
           (debug_var (the (widgets s))) (logging_var (the (widgets s)))) = c"
    and "raised_by c = Some e"
  shows "fst (installation_body clk popen s) = Some e
     \<and> widgets (snd (installation_body clk popen s)) \<noteq> None
     \<and> ticks (snd (installation_body clk popen s)) = ticks s + Suc (length (lines_read c))
     \<and> installation_log (snd (installation_body clk popen s)) =
         installation_log s @
         entries clk (ticks s) (''Starting installation...'' # map strip (lines_read c))"
  using assms
  by (cases c rule: raised_by.cases)
     (simp_all add: installation_body_def log_message_ok update_status_ok and_then_None
        log_lines_log_messages log_messages_ok entries_Cons entries_Nil)

lemma installation_body_exits:
  assumes "widgets s \<noteq> None"
    and "popen (build_command
           (selected_package_manager (pm_var (the (widgets s))) (package_managers s))
           (debug_var (the (widgets s))) (logging_var (the (widgets s)))) =
         Spawned lines (Stream_closed (Exit_code rc))"
  shows "fst (installation_body clk popen s) = None
     \<and> widgets (snd (installation_body clk popen s)) \<noteq> None
     \<and> installation_log (snd (installation_body clk popen s)) =
         installation_log s @
         entries clk (ticks s) (''Starting installation...'' # map strip lines @
           [if rc = 0 then ''Installation completed successfully!''
            else ''Installation failed with code '' @ str_int rc])"
  using assms
  by (simp add: installation_body_def log_message_ok update_status_ok and_then_None
        log_lines_log_messages log_messages_ok entries_Cons entries_Nil entries_append)

lemma run_installation_after_raise:
  assumes "installation_body clk popen s = (Some e, s1)" and "widgets s1 \<noteq> None"
    and "derives_from_Exception e"
  shows "fst (run_installation clk popen s) = None
     \<and> \<not> is_installing (snd (run_installation clk popen s))
     \<and> installation_log (snd (run_installation clk popen s)) =
         installation_log s1 @
         [log_entry (clk (ticks s1)) (''Error during installation: '' @ exn_str e)]"
  using assms
  by (simp add: run_installation_def log_message_ok update_status_ok and_then_None)

lemma run_installation_after_return:
  assumes "installation_body clk popen s = (None, s1)" and "widgets s1 \<noteq> None"
  shows "fst (run_installation clk popen s) = None
     \<and> \<not> is_installing (snd (run_installation clk popen s))
     \<and> installation_log (snd (run_installation clk popen s)) = installation_log s1"
  using assms
  by (auto simp: run_installation_def)

section \<open>Configuration loading at start-up\<close>

text \<open>
  C1. A missing or unparsable configuration file should leave the configuration empty
  without a fatal error. With no file, \<^verbatim>\<open>load_config\<close> returns and the configuration is
  the empty mapping. With a file whose opening or parsing raises an exception that derives
  from \<^verbatim>\<open>Exception\<close> (a JSON syntax error is one), the handler calls \<^verbatim>\<open>log_message\<close>
  while \<^verbatim>\<open>__init__\<close> has not yet created the widgets: the entry is appended, then
  \<^verbatim>\<open>self.log_text\<close> raises \<^verbatim>\<open>AttributeError\<close>, which leaves \<^verbatim>\<open>load_config\<close> and
  \<^verbatim>\<open>__init__\<close>. An exception of another class is not caught and leaves both as it is.
\<close>

theorem load_config_unreadable_raises:
  "load_config clk Missing initial_state = (None, initial_state)
   \<and> load_config clk (Unreadable e) initial_state =
       (if derives_from_Exception e then
          (Some (no_attribute ''log_text''),
           initial_state\<lparr>ticks := 1,
             installation_log := [log_entry (clk 0) (''Error loading config: '' @ exn_str e)]\<rparr>)
        else (Some e, initial_state))
   \<and> fst (init_steps clk (Unreadable e) run) =
       Some (if derives_from_Exception e then no_attribute ''log_text'' else e)"
  by (simp add: init_steps_def load_config_def log_message_def initial_state_def Let_def
      and_then_def)

section \<open>Clearing the log\<close>

text \<open>
  C2, as the code has it. Once the widgets exist, a confirmed \<^verbatim>\<open>clear_log\<close> removes every
  earlier entry and then logs its own notice, so the in-memory log holds exactly one entry,
  the time-stamped line "Log cleared"; without confirmation nothing changes.
\<close>

theorem clear_log_keeps_notice:
  assumes "widgets s \<noteq> None"
  shows "fst (clear_log clk True s) = None
     \<and> installation_log (snd (clear_log clk True s)) = [log_entry (clk (ticks s)) ''Log cleared'']
     \<and> clear_log clk False s = (None, s)"
  using assms by (auto simp: clear_log_def Let_def log_message_ok)

theorem clear_log_keeps_notice_witness:
  "widgets ((create_widgets initial_state)
      \<lparr>installation_log := [''[09:15:00] Setup reset'' @ [newline]], ticks := 45296\<rparr>) \<noteq> None
   \<and> installation_log
        (snd (clear_log id True
          ((create_widgets initial_state)
             \<lparr>installation_log := [''[09:15:00] Setup reset'' @ [newline]], ticks := 45296\<rparr>)))
       = [''[12:34:56] Log cleared'' @ [newline]]"
proof -
  let ?s = "(create_widgets initial_state)
      \<lparr>installation_log := [''[09:15:00] Setup reset'' @ [newline]], ticks := 45296\<rparr>"
  have w: "widgets ?s \<noteq> None"
    by (simp add: create_widgets_def)
  from clear_log_keeps_notice [OF w, of id]
  have "installation_log (snd (clear_log id True ?s)) = [log_entry 45296 ''Log cleared'']"
    by simp
  then show ?thesis
    using w by (simp add: log_entry_def strftime_HMS_examples)
qed

text \<open>
  The log is not empty after a confirmed clear: here it held one entry before, and holds
  the notice afterwards.
\<close>

theorem clear_log_empty_counterexample:
  "installation_log
     (snd (clear_log id True
        ((create_widgets initial_state)
           \<lparr>installation_log := [''[09:15:00] Starting installation...'' @ [newline]]\<rparr>)))
   \<noteq> []"
  by (simp add: clear_log_def log_message_def create_widgets_def initial_state_def Let_def)

section \<open>Package-manager selection\<close>

text \<open>
  C3. Whatever the detected registry holds, auto-selection returns the first of choco,
  winget, scoop (the fixed priority order) that is a key of the registry, and winget (the
  fixed default) when none of the three is a key.
\<close>

theorem detect_best_package_manager_first_present:
  "detect_best_package_manager pms = first_present_or_default pms"
  by (simp add: detect_best_package_manager_def first_present_or_default_def
      priority_order_def default_manager_def)

section \<open>Starting and running an installation\<close>

text \<open>
  C4. When the run-state flag is set, \<^verbatim>\<open>start_installation\<close> returns at once: no
  exception, and the whole state (the flag, the log, the widgets, the count of workers
  started) is what it was.
\<close>

theorem start_installation_noop_when_installing:
  "is_installing s \<Longrightarrow> start_installation s = (None, s)"
  by (simp add: start_installation_def)

theorem start_installation_noop_when_installing_witness:
  "is_installing ((create_widgets initial_state)\<lparr>is_installing := True\<rparr>)
   \<and> start_installation ((create_widgets initial_state)\<lparr>is_installing := True\<rparr>) =
       (None, (create_widgets initial_state)\<lparr>is_installing := True\<rparr>)"
  using start_installation_noop_when_installing
    [of "(create_widgets initial_state)\<lparr>is_installing := True\<rparr>"]
  by simp

text \<open>
  C5, as the code has it. On a constructed GUI, when the provisioning process raises an
  exception \<open>e\<close> that derives from \<^verbatim>\<open>Exception\<close> (at \<^verbatim>\<open>Popen\<close>, while its output is
  read, or at \<^verbatim>\<open>wait\<close>), \<^verbatim>\<open>run_installation\<close> returns without an exception, the
  run-state flag is false, and the log has grown by the start line, the lines read before
  the exception, and last the line "Error during installation: " with the message of \<open>e\<close>.
\<close>

theorem run_installation_catches_and_logs:
  assumes "widgets s = Some w"
    and "popen (build_command (selected_package_manager (pm_var w) (package_managers s))
           (debug_var w) (logging_var w)) = c"
    and "raised_by c = Some e"
    and "derives_from_Exception e"
  shows "fst (run_installation clk popen s) = None
     \<and> \<not> is_installing (snd (run_installation clk popen s))
     \<and> installation_log (snd (run_installation clk popen s)) =
         installation_log s @
         entries clk (ticks s) (''Starting installation...'' # map strip (lines_read c)) @
         [log_entry (clk (ticks s + Suc (length (lines_read c))))
            (''Error during installation: '' @ exn_str e)]"
proof -
  obtain r s1 where body: "installation_body clk popen s = (r, s1)"
    by (cases "installation_body clk popen s")
  have "widgets s \<noteq> None" and
    "popen (build_command
           (selected_package_manager (pm_var (the (widgets s))) (package_managers s))
           (debug_var (the (widgets s))) (logging_var (the (widgets s)))) = c"
    using assms(1,2) by simp_all
  from installation_body_raises [where popen = popen and s = s and clk = clk, OF this assms(3)]
  have r: "r = Some e" and w1: "widgets s1 \<noteq> None"
    and t1: "ticks s1 = ticks s + Suc (length (lines_read c))"
    and l1: "installation_log s1 =
         installation_log s @
         entries clk (ticks s) (''Starting installation...'' # map strip (lines_read c))"
    by (simp_all add: body)
  from run_installation_after_raise [OF body [unfolded r] w1 assms(4)]
  show ?thesis
    by (simp add: t1 l1)
qed

theorem run_installation_catches_and_logs_witness:
  "widgets ((create_widgets initial_state)\<lparr>is_installing := True\<rparr>) = Some new_widgets
   \<and> raised_by (Spawned [''  Installing git... ''] (Read_raises (Exn ''OSError'' ''broken pipe''))) =
       Some (Exn ''OSError'' ''broken pipe'')
   \<and> derives_from_Exception (Exn ''OSError'' ''broken pipe'')
   \<and> fst (run_installation (\<lambda>k. 45296)
         (\<lambda>cmd. Spawned [''  Installing git... ''] (Read_raises (Exn ''OSError'' ''broken pipe'')))
         ((create_widgets initial_state)\<lparr>is_installing := True\<rparr>)) = None
   \<and> \<not> is_installing (snd (run_installation (\<lambda>k. 45296)
         (\<lambda>cmd. Spawned [''  Installing git... ''] (Read_raises (Exn ''OSError'' ''broken pipe'')))
         ((create_widgets initial_state)\<lparr>is_installing := True\<rparr>)))
   \<and> installation_log (snd (run_installation (\<lambda>k. 45296)
         (\<lambda>cmd. Spawned [''  Installing git... ''] (Read_raises (Exn ''OSError'' ''broken pipe'')))
         ((create_widgets initial_state)\<lparr>is_installing := True\<rparr>))) =
       [''[12:34:56] Starting installation...'' @ [newline],
        ''[12:34:56] Installing git...'' @ [newline],
        ''[12:34:56] Error during installation: broken pipe'' @ [newline]]"
proof -
  let ?s = "(create_widgets initial_state)\<lparr>is_installing := True\<rparr>"
  let ?c = "Spawned [''  Installing git... ''] (Read_raises (Exn ''OSError'' ''broken pipe''))"
  have w: "widgets ?s = Some new_widgets"
    by (simp add: create_widgets_def)
  have r: "raised_by ?c = Some (Exn ''OSError'' ''broken pipe'')"
    by simp
  have d: "derives_from_Exception (Exn ''OSError'' ''broken pipe'')"
    by (simp add: derives_from_Exception_def base_only_classes_def)
  have t: "ticks ?s = 0" and l: "installation_log ?s = []"
    by (simp_all add: create_widgets_def initial_state_def)
  from run_installation_catches_and_logs
    [where s = ?s and w = new_widgets and popen = "\<lambda>cmd. ?c" and c = ?c
       and clk = "\<lambda>k. 45296", OF w refl r d]
  show ?thesis
    using w d
    by (simp add: t l entries_def upt_conv_Cons log_entry_def strftime_HMS_examples
        strip_examples del: upt_Suc)
qed

text \<open>
  An exception that does not derive from \<^verbatim>\<open>Exception\<close> is not caught: when \<^verbatim>\<open>wait\<close>
  is interrupted by \<^verbatim>\<open>KeyboardInterrupt\<close>, the exception leaves \<^verbatim>\<open>run_installation\<close>
  and the log holds the start line only, with no entry for the error.
\<close>

theorem run_installation_uncaught_counterexample:
  "fst (run_installation id interrupted_at_wait
         ((create_widgets initial_state)\<lparr>is_installing := True\<rparr>)) =
     Some (Exn ''KeyboardInterrupt'' [])
   \<and> installation_log (snd (run_installation id interrupted_at_wait
         ((create_widgets initial_state)\<lparr>is_installing := True\<rparr>))) =
       [''[00:00:00] Starting installation...'' @ [newline]]"
  by (simp add: run_installation_def installation_body_def interrupted_at_wait_def
      log_message_def update_status_def and_then_def create_widgets_def initial_state_def
      derives_from_Exception_def base_only_classes_def Let_def log_entry_def
      strftime_HMS_examples)

text \<open>
  C6. On a constructed GUI, when the provisioning process ends with an exit code other
  than zero, \<^verbatim>\<open>run_installation\<close> returns without an exception, the run-state flag is
  false, and the last entry of the log is the line "Installation failed with code "
  followed by the exit code in decimal.
\<close>

theorem run_installation_reports_failure:
  assumes "widgets s = Some w"
    and "popen (build_command (selected_package_manager (pm_var w) (package_managers s))
           (debug_var w) (logging_var w)) = Spawned lines (Stream_closed (Exit_code rc))"
    and "rc \<noteq> 0"
  shows "fst (run_installation clk popen s) = None
     \<and> \<not> is_installing (snd (run_installation clk popen s))
     \<and> installation_log (snd (run_installation clk popen s)) =
         installation_log s @
         entries clk (ticks s) (''Starting installation...'' # map strip lines) @
         [log_entry (clk (ticks s + Suc (length lines)))
            (''Installation failed with code '' @ str_int rc)]"
proof -
  obtain r s1 where body: "installation_body clk popen s = (r, s1)"
    by (cases "installation_body clk popen s")
  have "widgets s \<noteq> None" and
    "popen (build_command
           (selected_package_manager (pm_var (the (widgets s))) (package_managers s))
           (debug_var (the (widgets s))) (logging_var (the (widgets s)))) =
      Spawned lines (Stream_closed (Exit_code rc))"
    using assms(1,2) by simp_all
  from installation_body_exits [where popen = popen and s = s and clk = clk, OF this]
  have r: "r = None" and w1: "widgets s1 \<noteq> None"
    and l1: "installation_log s1 =
         installation_log s @
         entries clk (ticks s) (''Starting installation...'' # map strip lines @
           [''Installation failed with code '' @ str_int rc])"
    using assms(3) by (simp_all add: body)
  from run_installation_after_return [OF body [unfolded r] w1]
  show ?thesis
    by (simp add: l1 entries_Cons entries_Nil entries_append)
qed

theorem run_installation_reports_failure_witness:
  "widgets ((create_widgets initial_state)\<lparr>is_installing := True\<rparr>) = Some new_widgets
   \<and> (1::int) \<noteq> 0
   \<and> fst (run_installation (\<lambda>k. 45296)
         (\<lambda>cmd. Spawned [''  Installing git... ''] (Stream_closed (Exit_code 1)))
         ((create_widgets initial_state)\<lparr>is_installing := True\<rparr>)) = None
   \<and> \<not> is_installing (snd (run_installation (\<lambda>k. 45296)
         (\<lambda>cmd. Spawned [''  Installing git... ''] (Stream_closed (Exit_code 1)))
         ((create_widgets initial_state)\<lparr>is_installing := True\<rparr>)))
   \<and> installation_log (snd (run_installation (\<lambda>k. 45296)
         (\<lambda>cmd. Spawned [''  Installing git... ''] (Stream_closed (Exit_code 1)))
         ((create_widgets initial_state)\<lparr>is_installing := True\<rparr>))) =
       [''[12:34:56] Starting installation...'' @ [newline],
        ''[12:34:56] Installing git...'' @ [newline],
        ''[12:34:56] Installation failed with code 1'' @ [newline]]"
proof -
  let ?s = "(create_widgets initial_state)\<lparr>is_installing := True\<rparr>"
  let ?c = "Spawned [''  Installing git... ''] (Stream_closed (Exit_code 1))"
  have w: "widgets ?s = Some new_widgets"
    by (simp add: create_widgets_def)
  have n: "(1::int) \<noteq> 0"
    by simp
  have t: "ticks ?s = 0" and l: "installation_log ?s = []"
    by (simp_all add: create_widgets_def initial_state_def)
  from run_installation_reports_failure
    [where s = ?s and w = new_widgets and popen = "\<lambda>cmd. ?c" and clk = "\<lambda>k. 45296",
     OF w refl n]
  show ?thesis
    using w
    by (simp add: t l entries_def upt_conv_Cons log_entry_def strftime_HMS_examples
        strip_examples str_int_examples del: upt_Suc)
qed

section \<open>Detection of the package managers\<close>

text \<open>
  C7. On a constructed GUI, detection returns without an exception whatever the three
  probes do, and each of choco, scoop and winget is a key of the registry afterwards
  exactly when its own probe did not fail: a probe that raises (executable not found,
  timeout) or exits with a code other than zero leaves its manager out and has no effect
  on the other two.
\<close>

theorem auto_detect_omits_failed_probes:
  assumes "m \<in> set known_managers" and "widgets s \<noteq> None"
  shows "fst (auto_detect_package_managers run s) = None
     \<and> py_in m (package_managers (snd (auto_detect_package_managers run s))) =
         (\<not> probe_failed (run [m, ''--version'']))"
proof -
  have "fst (auto_detect_package_managers run s) = None"
    using assms(2) by (auto simp: auto_detect_package_managers_def Let_def)
  moreover have "py_in m (package_managers (snd (auto_detect_package_managers run s))) =
         (\<not> probe_failed (run [m, ''--version'']))"
    using assms(1)
    by (auto simp: package_managers_auto_detect py_in_check_manager known_managers_def py_in_Nil)
  ultimately show ?thesis by simp
qed

theorem auto_detect_omits_failed_probes_witness:
  "''choco'' \<in> set known_managers \<and> widgets (create_widgets initial_state) \<noteq> None
   \<and> probe_failed (Probe_raises (Exn ''FileNotFoundError'' ''No such file or directory''))
   \<and> \<not> py_in ''choco'' (package_managers (snd (auto_detect_package_managers
         (\<lambda>cmd. if cmd = [''choco'', ''--version'']
                then Probe_raises (Exn ''FileNotFoundError'' ''No such file or directory'')
                else if cmd = [''scoop'', ''--version''] then Completed 1 []
                else Completed 0 (''v1.9.25200'' @ [newline]))
         (create_widgets initial_state))))
   \<and> package_managers (snd (auto_detect_package_managers
         (\<lambda>cmd. if cmd = [''choco'', ''--version'']
                then Probe_raises (Exn ''FileNotFoundError'' ''No such file or directory'')
                else if cmd = [''scoop'', ''--version''] then Completed 1 []
                else Completed 0 (''v1.9.25200'' @ [newline]))
         (create_widgets initial_state))) = [(''winget'', ''v1.9.25200'')]"
proof -
  let ?run = "\<lambda>cmd. if cmd = [''choco'', ''--version'']
                then Probe_raises (Exn ''FileNotFoundError'' ''No such file or directory'')
                else if cmd = [''scoop'', ''--version''] then Completed 1 []
                else Completed 0 (''v1.9.25200'' @ [newline])"
  have k: "''choco'' \<in> set known_managers"
    by (simp add: known_managers_def)
  have w: "widgets (create_widgets initial_state) \<noteq> None"
    by (simp add: create_widgets_def)
  have r: "package_managers (snd (auto_detect_package_managers ?run (create_widgets initial_state)))
      = [(''winget'', ''v1.9.25200'')]"
    by (simp add: package_managers_auto_detect check_manager_def strip_def isspace_def
        newline_def)
  from auto_detect_omits_failed_probes [OF k w, of ?run]
  have "\<not> py_in ''choco''
      (package_managers (snd (auto_detect_package_managers ?run (create_widgets initial_state))))"
    by (simp add: probe_failed_def)
  then show ?thesis
    using k w r by (simp add: probe_failed_def)
qed

section \<open>Appending to the log and refreshing the display\<close>

text \<open>
  C8. On a constructed GUI, calling \<^verbatim>\<open>log_message\<close> on \<open>N\<close> messages in turn raises
  nothing and appends exactly \<open>N\<close> entries: the log is \<open>N\<close> longer, its old entries are
  in place and unchanged, and the \<open>i\<close>-th new entry is the \<open>i\<close>-th message behind the
  bracketed \<^verbatim>\<open>HH:MM:SS\<close> reading of the clock at the \<open>i\<close>-th call, followed by a newline.
\<close>

theorem log_messages_append_in_order:
  assumes "widgets s \<noteq> None"
  shows "fst (log_messages clk msgs s) = None
     \<and> length (installation_log (snd (log_messages clk msgs s))) =
         length (installation_log s) + length msgs
     \<and> take (length (installation_log s)) (installation_log (snd (log_messages clk msgs s))) =
         installation_log s
     \<and> (\<forall>i<length msgs.
           installation_log (snd (log_messages clk msgs s)) ! (length (installation_log s) + i) =
             ''['' @ strftime_HMS (clk (ticks s + i)) @ ''] '' @ msgs ! i @ [newline]
           \<and> timestamped
               (installation_log (snd (log_messages clk msgs s)) ! (length (installation_log s) + i)))"
proof -
  have log: "installation_log (snd (log_messages clk msgs s)) =
      installation_log s @ entries clk (ticks s) msgs"
    using assms by (simp add: log_messages_ok)
  have "fst (log_messages clk msgs s) = None"
    using assms by (simp add: log_messages_ok)
  moreover have "length (installation_log (snd (log_messages clk msgs s))) =
      length (installation_log s) + length msgs"
    by (simp add: log length_entries)
  moreover have "take (length (installation_log s)) (installation_log (snd (log_messages clk msgs s))) =
      installation_log s"
    by (simp add: log)
  moreover have "installation_log (snd (log_messages clk msgs s)) ! (length (installation_log s) + i) =
        ''['' @ strftime_HMS (clk (ticks s + i)) @ ''] '' @ msgs ! i @ [newline]
      \<and> timestamped
          (installation_log (snd (log_messages clk msgs s)) ! (length (installation_log s) + i))"
    if "i < length msgs" for i
  proof -
    have "installation_log (snd (log_messages clk msgs s)) ! (length (installation_log s) + i) =
        log_entry (clk (ticks s + i)) (msgs ! i)"
      using that by (simp add: log entries_nth)
    then show ?thesis
      using timestamped_log_entry [of "clk (ticks s + i)" "msgs ! i"]
      by (simp add: log_entry_def)
  qed
  ultimately show ?thesis by blast
qed

theorem log_messages_append_in_order_witness:
  "widgets ((create_widgets initial_state)\<lparr>ticks := 45296\<rparr>) \<noteq> None
   \<and> length (installation_log (snd (log_messages id [''one'', ''two'']
        ((create_widgets initial_state)\<lparr>ticks := 45296\<rparr>)))) = 2
   \<and> installation_log (snd (log_messages id [''one'', ''two'']
        ((create_widgets initial_state)\<lparr>ticks := 45296\<rparr>))) ! 1 =
       ''[12:34:57] two'' @ [newline]"
proof -
  let ?s = "(create_widgets initial_state)\<lparr>ticks := 45296\<rparr>"
  let ?log = "installation_log (snd (log_messages id [''one'', ''two''] ?s))"
  have w: "widgets ?s \<noteq> None"
    by (simp add: create_widgets_def)
  have l: "installation_log ?s = []"
    by (simp add: create_widgets_def initial_state_def)
  note inst = log_messages_append_in_order [OF w, of id "[''one'', ''two'']"]
  from inst have len: "length ?log = length (installation_log ?s) + 2"
    by (simp del: log_messages.simps)
  from inst have "\<forall>i<length [''one'', ''two''].
       ?log ! (length (installation_log ?s) + i) =
         ''['' @ strftime_HMS (id (ticks ?s + i)) @ ''] '' @ [''one'', ''two''] ! i @ [newline]"
    by blast
  then have "1 < length [''one'', ''two''] \<longrightarrow> ?log ! (length (installation_log ?s) + 1) =
       ''['' @ strftime_HMS (id (ticks ?s + 1)) @ ''] '' @ [''one'', ''two''] ! 1 @ [newline]"
    by (rule spec)
  then have "?log ! 1 = ''['' @ strftime_HMS 45297 @ ''] two'' @ [newline]"
    by (simp add: l del: log_messages.simps)
  then show ?thesis
    using w len by (simp add: l strftime_HMS_examples del: log_messages.simps)
qed

text \<open>
  C9. On a constructed GUI, \<^verbatim>\<open>refresh_log\<close> raises nothing, leaves the in-memory log
  as it was, and leaves in the display the entries of the log, each once, in order, and
  nothing else.
\<close>

theorem refresh_log_reproduces_log:
  assumes "widgets s \<noteq> None"
  shows "fst (refresh_log s) = None
     \<and> map_option log_text (widgets (snd (refresh_log s))) = Some (concat (installation_log s))
     \<and> installation_log (snd (refresh_log s)) = installation_log s"
  using assms by (auto simp: refresh_log_def foldl_append_concat)

theorem refresh_log_reproduces_log_witness:
  "widgets ((create_widgets initial_state)
      \<lparr>installation_log := [''[09:15:00] one'' @ [newline], ''[09:15:01] two'' @ [newline]]\<rparr>)
     \<noteq> None
   \<and> map_option log_text (widgets (snd (refresh_log
        ((create_widgets initial_state)
           \<lparr>installation_log := [''[09:15:00] one'' @ [newline], ''[09:15:01] two'' @ [newline]]\<rparr>))))
       = Some (''[09:15:00] one'' @ [newline] @ ''[09:15:01] two'' @ [newline])"
proof -
  let ?s = "(create_widgets initial_state)
      \<lparr>installation_log := [''[09:15:00] one'' @ [newline], ''[09:15:01] two'' @ [newline]]\<rparr>"
  have w: "widgets ?s \<noteq> None"
    by (simp add: create_widgets_def)
  from refresh_log_reproduces_log [OF w]
  have "map_option log_text (widgets (snd (refresh_log ?s))) = Some (concat (installation_log ?s))"
    by simp
  then show ?thesis
    using w by simp
qed

section \<open>The manager named on the command line\<close>

text \<open>
  C10. For every registry the auto-selected manager is one of choco, winget and scoop and
  is never the sentinel auto, so with the selector on auto the command line of the
  provisioning script names a concrete manager after \<^verbatim>\<open>-PackageManager\<close>.
\<close>

theorem detect_best_package_manager_concrete:
  "detect_best_package_manager pms \<in> {''choco'', ''winget'', ''scoop''}
   \<and> detect_best_package_manager pms \<noteq> ''auto''
   \<and> take 7 (build_command (selected_package_manager ''auto'' pms) debug verbose) =
       [''powershell'', ''-ExecutionPolicy'', ''Bypass'', ''-File'', ''setup.ps1'',
        ''-PackageManager'', detect_best_package_manager pms]"
  by (simp add: detect_best_package_manager_def selected_package_manager_def build_command_def)

end
